theory Spec2Isabelle
  imports Main "HOL-Library.Word" "HOL-Library.AList"
begin

section \<open>Positions, tokens and syntax trees\<close>

text \<open>
  Modelled from the spec: the classes of positions, tokens and nodes are not part of the
  source; the evaluator consumes the syntax trees the parser builds. A position is null
  where the source passes none, so every position field is an option. Number literals
  are integers here: the host's numbers are floats, and the development covers the
  integers, on which the host's addition and comparison are exact. A string payload is
  a sequence of 16-bit code units, as the host's strings are.
\<close>

datatype position =
  Position (pos_file: string) (pos_line: nat) (pos_column: nat) (pos_offset: nat)

type_synonym pos = "position option"

type_synonym number = int

type_synonym code_unit = "16 word"

definition utf16 :: "string \<Rightarrow> code_unit list" where
  "utf16 s = map (\<lambda>c. of_nat (of_char c)) s"

datatype tokenType =
  TT_PLUS | TT_MINUS | TT_MUL | TT_DIV | TT_POW | TT_EE | TT_NE | TT_LT | TT_GT
  | TT_LTE | TT_GTE | TT_AND | TT_OR | TT_NOT

text \<open>
  One constructor for each node class the interpreter has a visitor for; the last two
  fields are \<open>posStart\<close> and \<open>posEnd\<close>. A token is reduced to the field the visitor
  reads (\<open>tok.value\<close>, \<open>varNameTok.value\<close>, \<open>opTok.type\<close>).
\<close>

datatype node =
    NumberNode number pos pos
  | StringNode "code_unit list" pos pos
  | ListNode "node list" pos pos
  | VarAccessNode string pos pos
  | VarAssignNode string node pos pos
  | BinOpNode node tokenType node pos pos
  | UnaryOpNode tokenType node pos pos
  | IfNode "(node \<times> node) list" "node option" pos pos
  | ForNode string node node "node option" node pos pos
  | WhileNode node node pos pos
  | FuncDefNode "string option" "string list" node pos pos
  | CallNode node "node list" pos pos

section \<open>Contexts, values, errors and results\<close>

text \<open>
  Modelled from the spec: the class \<open>Context\<close> is not part of the source. It is built
  as \<open>new Context(displayName, parent, parentEntryPos)\<close> and given its symbol table. A
  context refers to the table by the table's address in the store (below), since tables
  are mutable and shared between contexts and through parent links.
\<close>

datatype "context" =
  Context (displayName: string) (parent: "context option") (parentEntryPos: pos)
    (symbolTable: nat)

datatype builtin =
  andika | soma | somaNambari | futa | niNambari | niJina | niOrodha | niShughuli | idadi

text \<open>
  An object of class \<open>SWValue\<close> or of one of its subclasses: the payload tells the class,
  the other three fields are the ones \<open>SWValue\<close> declares. The payload \<open>SWValue\<close> is an
  instance of the base class itself, which \<open>visitBinOpNode\<close> creates. A list holds null
  where a visitor returned \<open>success(null)\<close>.
\<close>

datatype val =
  Val (payload: payload) (posStart: pos) (posEnd: pos) (vcontext: "context option")
and payload =
    SWNumber number
  | SWString "code_unit list"
  | SWBoolean bool
  | SWList "val option list"
  | SWNull
  | SWFunction string node "string list"
  | SWBuiltInFunction builtin
  | SWValue

text \<open>
  Modelled from the spec: the class \<open>RTError\<close> is not part of the source. It is built as
  \<open>new RTError(posStart, posEnd, details, context)\<close>; the source gives an error no kind
  other than its message.
\<close>

datatype rterror =
  RTError (errPosStart: pos) (errPosEnd: pos) (details: string)
    (errContext: "context option")

datatype rtresult = RTResult (rvalue: "val option") (rerror: "rterror option")

text \<open>
  Modelled from the spec: the class \<open>RTResult\<close> (EvalResult) is not part of the source.
  \<open>success\<close> sets the value and never clears an error; \<open>failure\<close> sets the error, the
  value is null; \<open>register\<close> copies the other result's error, if set, and returns its
  value.
\<close>

definition RTResult_new :: rtresult where
  "RTResult_new = RTResult None None"

definition success :: "rtresult \<Rightarrow> val option \<Rightarrow> rtresult" where
  "success res v = RTResult v (rerror res)"

definition failure :: "rtresult \<Rightarrow> rterror \<Rightarrow> rtresult" where
  "failure res e = RTResult None (Some e)"

definition register :: "rtresult \<Rightarrow> rtresult \<Rightarrow> val option \<times> rtresult" where
  "register res other =
     (rvalue other,
      if rerror other \<noteq> None then RTResult (rvalue res) (rerror other) else res)"

section \<open>The store: symbol tables and the console\<close>

text \<open>
  Modelled from the spec: the class \<open>SymbolTable\<close> is not part of the source. A table
  maps names to values and has an optional parent; \<open>get\<close> looks in the table and then
  in the parent chain, \<open>set\<close> writes the table itself only. Binding a name to null
  leaves it unbound for \<open>get\<close>. \<open>new SymbolTable(parent)\<close> takes the next free
  address, so a parent's address is below its child's; \<open>get\<close> follows a parent link
  only downwards, which is what makes it total.
\<close>

record symtab =
  symbols :: "(string \<times> val) list"
  parentTable :: "nat option"

datatype event = Printed string | Prompted string | Cleared

record store =
  tables :: "symtab list"
  console :: "event list"
  stdin :: "string list"

definition SymbolTable_new :: "nat option \<Rightarrow> store \<Rightarrow> nat \<times> store" where
  "SymbolTable_new p s =
     (length (tables s), s\<lparr>tables := tables s @ [\<lparr>symbols = [], parentTable = p\<rparr>]\<rparr>)"

definition SymbolTable_set :: "nat \<Rightarrow> string \<Rightarrow> val option \<Rightarrow> store \<Rightarrow> store" where
  "SymbolTable_set a name v s =
     (if a < length (tables s)
      then s\<lparr>tables := (tables s)
             [a := (tables s ! a)\<lparr>symbols :=
                (case v of Some x \<Rightarrow> AList.update name x (symbols (tables s ! a))
                 | None \<Rightarrow> AList.delete name (symbols (tables s ! a)))\<rparr>]\<rparr>
      else s)"

function SymbolTable_get :: "symtab list \<Rightarrow> nat \<Rightarrow> string \<Rightarrow> val option" where
  "SymbolTable_get ts a name =
     (if a < length ts
      then (case map_of (symbols (ts ! a)) name of
              Some v \<Rightarrow> Some v
            | None \<Rightarrow>
                (case parentTable (ts ! a) of
                   None \<Rightarrow> None
                 | Some p \<Rightarrow> if p < a then SymbolTable_get ts p name else None))
      else None)"
  by pat_completeness auto
termination
  by (relation "measure (\<lambda>(ts, a, name). a)") auto

declare SymbolTable_get.simps [simp del]

section \<open>Computations\<close>

text \<open>
  A call of a source function either returns, or throws a host exception (which nothing
  in the source catches), or does not return at all: \<open>None\<close>. The exception
  \<open>Unmodelled\<close> marks a run that leaves what the development covers: a \<open>ForNode\<close>
  whose bounds are not numbers, which the host compares and adds by its coercion rules.
\<close>

datatype jsexception = TypeError | ReferenceError string | Error string | Unmodelled

datatype 'a outcome = Return 'a | Throw jsexception

type_synonym 'a comp = "store \<Rightarrow> ('a outcome \<times> store) option"

definition ret :: "'a \<Rightarrow> 'a comp" where
  "ret x s = Some (Return x, s)"

definition throw :: "jsexception \<Rightarrow> 'a comp" where
  "throw e s = Some (Throw e, s)"

definition bind :: "'a comp \<Rightarrow> ('a \<Rightarrow> 'b comp) \<Rightarrow> 'b comp" where
  "bind m k s =
     (case m s of
        None \<Rightarrow> None
      | Some (Throw e, s') \<Rightarrow> Some (Throw e, s')
      | Some (Return x, s') \<Rightarrow> k x s')"

definition modify :: "(store \<Rightarrow> store) \<Rightarrow> unit comp" where
  "modify f s = Some (Return (), f s)"

section \<open>The class SWValue\<close>

definition setPosition :: "val \<Rightarrow> pos \<Rightarrow> pos \<Rightarrow> val" where
  "setPosition v ps pe = Val (payload v) ps pe (vcontext v)"

definition setContext :: "val \<Rightarrow> context option \<Rightarrow> val" where
  "setContext v c = Val (payload v) (posStart v) (posEnd v) c"

definition illegalOperation :: "val \<Rightarrow> val option \<Rightarrow> rterror" where
  "illegalOperation this other =
     RTError (posStart this) (posEnd (case other of None \<Rightarrow> this | Some v \<Rightarrow> v))
       ''Illegal operation'' (vcontext this)"

definition isFunction :: "val \<Rightarrow> bool" where
  "isFunction v =
     (case payload v of SWFunction name bodyNode argNames \<Rightarrow> True
      | SWBuiltInFunction b \<Rightarrow> True | _ \<Rightarrow> False)"

definition inheritsSWValue :: "val \<Rightarrow> bool" where
  "inheritsSWValue v = (isFunction v \<or> payload v = SWValue)"

text \<open>
  Modelled from the spec: the classes of numbers, strings, booleans, lists and null are
  not part of the source. Their truthiness is the spec's table (a number is true when it
  is not 0, a string or a list when it is not empty, a boolean when it is \<open>kweli\<close>,
  null never); their \<open>copy\<close> is a clone with the same payload, position and context;
  their \<open>notted\<close> is the Boolean of the negated truthiness.
\<close>

definition valueClass_isTrue :: "val \<Rightarrow> bool" where
  "valueClass_isTrue v =
     (case payload v of
        SWNumber n \<Rightarrow> n \<noteq> 0
      | SWString x \<Rightarrow> 0 < length x
      | SWBoolean b \<Rightarrow> b
      | SWList es \<Rightarrow> 0 < length es
      | _ \<Rightarrow> False)"

definition valueClass_copy :: "val \<Rightarrow> val" where
  "valueClass_copy v = Val (payload v) (posStart v) (posEnd v) (vcontext v)"

definition valueClass_notted :: "val \<Rightarrow> val option \<times> rterror option" where
  "valueClass_notted v =
     (Some (Val (SWBoolean (\<not> valueClass_isTrue v)) None None (vcontext v)), None)"

text \<open>
  \<open>isTrue\<close>: the function classes do not override \<open>SWValue.isTrue\<close>, which returns
  false.
\<close>

definition isTrue :: "val \<Rightarrow> bool" where
  "isTrue v = (if inheritsSWValue v then False else valueClass_isTrue v)"

text \<open>
  \<open>copy\<close>: \<open>SWFunction.copy\<close> and \<open>SWBuiltInFunction.copy\<close> build a new object from the
  fields of this one; \<open>SWValue.copy\<close> throws.
\<close>

definition copy :: "val \<Rightarrow> val outcome" where
  "copy v =
     (case payload v of
        SWFunction name bodyNode argNames \<Rightarrow>
          Return (setContext
                    (setPosition
                       (Val (SWFunction (if name = [] then ''<isiyotambuliwa>'' else name)
                               bodyNode argNames) None None None)
                       (posStart v) (posEnd v))
                    (vcontext v))
      | SWBuiltInFunction b \<Rightarrow>
          Return (setContext
                    (setPosition (Val (SWBuiltInFunction b) None None None) (posStart v) (posEnd v))
                    (vcontext v))
      | SWValue \<Rightarrow> Throw (Error ''No copy method defined'')
      | _ \<Rightarrow> Return (valueClass_copy v))"

text \<open>
  \<open>notted\<close>: \<open>SWValue.notted\<close>, which the function classes do not override, reads a
  variable \<open>other\<close> that is declared nowhere, and so throws a ReferenceError.
\<close>

definition notted :: "val \<Rightarrow> (val option \<times> rterror option) outcome" where
  "notted v =
     (if inheritsSWValue v then Throw (ReferenceError ''other'')
      else Return (valueClass_notted v))"

text \<open>
  The value classes that are not part of the source, the console and the colour library
  are parameters: \<open>binaryOp\<close> is the binary operation of the classes of numbers,
  strings, booleans, lists and null for an operator token, \<open>render\<close> their
  \<open>toString(false)\<close>, \<open>parseNumber\<close> the host's reading of an input line as a number
  (None where \<open>isNaN\<close> holds).
\<close>

record host =
  binaryOp :: "tokenType \<Rightarrow> val \<Rightarrow> val option \<Rightarrow> val option \<times> rterror option"
  render :: "val \<Rightarrow> string"
  parseNumber :: "string \<Rightarrow> number option"
  cyan :: "string \<Rightarrow> string"
  brightCyan :: "string \<Rightarrow> string"

text \<open>
  The binary operation methods \<open>addedTo\<close> ... \<open>oredBy\<close>: those of \<open>SWValue\<close>, which the
  function classes inherit, all return an illegal-operation error.
\<close>

definition operate ::
  "host \<Rightarrow> tokenType \<Rightarrow> val \<Rightarrow> val option \<Rightarrow> val option \<times> rterror option" where
  "operate H tok this other =
     (if inheritsSWValue this then (None, Some (illegalOperation this other))
      else binaryOp H tok this other)"

definition builtinName :: "builtin \<Rightarrow> string" where
  "builtinName b =
     (case b of andika \<Rightarrow> ''andika'' | soma \<Rightarrow> ''soma'' | somaNambari \<Rightarrow> ''somaNambari''
      | futa \<Rightarrow> ''futa'' | niNambari \<Rightarrow> ''niNambari'' | niJina \<Rightarrow> ''niJina''
      | niOrodha \<Rightarrow> ''niOrodha'' | niShughuli \<Rightarrow> ''niShughuli'' | idadi \<Rightarrow> ''idadi'')"

definition toString :: "host \<Rightarrow> val \<Rightarrow> string" where
  "toString H v =
     (case payload v of
        SWFunction name bodyNode argNames \<Rightarrow> cyan H (''<shughuli '' @ name @ ''>'')
      | SWBuiltInFunction b \<Rightarrow> brightCyan H (''<shughuli asili '' @ builtinName b @ ''>'')
      | SWValue \<Rightarrow> ''[object Object]''
      | _ \<Rightarrow> render H v)"

section \<open>The function classes: the call protocol\<close>

definition SWFunction_new :: "string option \<Rightarrow> node \<Rightarrow> string list \<Rightarrow> val" where
  "SWFunction_new name bodyNode argNames =
     Val (SWFunction (case name of None \<Rightarrow> ''<isiyotambuliwa>''
                      | Some n \<Rightarrow> if n = [] then ''<isiyotambuliwa>'' else n)
            bodyNode argNames) None None None"

definition functionName :: "val \<Rightarrow> string" where
  "functionName this =
     (case payload this of SWFunction name bodyNode argNames \<Rightarrow> name
      | SWBuiltInFunction b \<Rightarrow> builtinName b | _ \<Rightarrow> ''undefined'')"

text \<open>
  \<open>generateNewContext\<close> (of the class \<open>SWBaseFunction\<close> that the interpreter's function
  classes extend): the new context's parent is the context the function value carries,
  and the new symbol table's parent is that context's table. Reading
  \<open>newContext.parent.symbolTable\<close> throws when the value carries no context.
\<close>

definition generateNewContext :: "val \<Rightarrow> context comp" where
  "generateNewContext this s =
     (case vcontext this of
        None \<Rightarrow> Some (Throw TypeError, s)
      | Some c \<Rightarrow>
          (case SymbolTable_new (Some (symbolTable c)) s of
             (a, s') \<Rightarrow> Some (Return (Context (functionName this) (Some c) (posStart this) a), s')))"

text \<open>The decimal digits of a count, as a template literal renders it.\<close>

definition digit :: "nat \<Rightarrow> char" where
  "digit d = ''0123456789'' ! d"

function string_of_nat :: "nat \<Rightarrow> string" where
  "string_of_nat n =
     (if 10 \<le> n then string_of_nat (n div 10) @ [digit (n mod 10)] else [digit n])"
  by pat_completeness auto
termination
  by (relation "measure (\<lambda>n. n)") auto

declare string_of_nat.simps [simp del]

definition checkArgs :: "val \<Rightarrow> string list \<Rightarrow> val option list \<Rightarrow> rtresult" where
  "checkArgs this argNames args =
     (if length args > length argNames
      then failure RTResult_new
             (RTError (posStart this) (posEnd this)
                (string_of_nat (length args - length argNames) @ '' too many args passed into ''
                  @ functionName this)
                (vcontext this))
      else if length args < length argNames
      then failure RTResult_new
             (RTError (posStart this) (posEnd this)
                (string_of_nat (length argNames - length args) @ '' too few args passed into ''
                  @ functionName this)
                (vcontext this))
      else success RTResult_new (Some (Val SWNull None None None)))"

text \<open>
  \<open>populateArgs\<close> as the interpreter's function classes have it: one binding for each
  argument, nothing else. A null argument throws at \<open>argValue.setContext\<close>; a name
  beyond the declared ones is the host's \<open>undefined\<close>.
\<close>

fun populateArgs :: "string list \<Rightarrow> val option list \<Rightarrow> context \<Rightarrow> unit comp" where
  "populateArgs argNames [] executionContext = ret ()"
| "populateArgs argNames (argValue # args) executionContext =
     (case argValue of
        None \<Rightarrow> throw TypeError
      | Some v \<Rightarrow>
          bind (modify (SymbolTable_set (symbolTable executionContext)
                  (case argNames of [] \<Rightarrow> ''undefined'' | argName # rest \<Rightarrow> argName)
                  (Some (setContext v (Some executionContext)))))
            (\<lambda>u. populateArgs (tl argNames) args executionContext))"

definition checkAndPopulateArgs ::
  "val \<Rightarrow> string list \<Rightarrow> val option list \<Rightarrow> context \<Rightarrow> rtresult comp" where
  "checkAndPopulateArgs this argNames args executionContext =
     (case register RTResult_new (checkArgs this argNames args) of
        (v, res) \<Rightarrow>
          if rerror res \<noteq> None then ret res
          else bind (populateArgs argNames args executionContext)
                 (\<lambda>u. ret (success res None)))"

subsection \<open>The built-in functions\<close>

definition builtinArgNames :: "builtin \<Rightarrow> string list" where
  "builtinArgNames b =
     (case b of andika \<Rightarrow> [''value''] | soma \<Rightarrow> [''message'']
      | somaNambari \<Rightarrow> [''message''] | futa \<Rightarrow> [] | niNambari \<Rightarrow> [''value'']
      | niJina \<Rightarrow> [''value''] | niOrodha \<Rightarrow> [''value''] | niShughuli \<Rightarrow> [''value'']
      | idadi \<Rightarrow> [''value''])"

definition getSymbol :: "context \<Rightarrow> string \<Rightarrow> store \<Rightarrow> val option" where
  "getSymbol ctx name s = SymbolTable_get (tables s) (symbolTable ctx) name"

text \<open>What a table itself binds a name to, its parents left aside.\<close>

definition ownBinding :: "store \<Rightarrow> nat \<Rightarrow> string \<Rightarrow> val option" where
  "ownBinding s a name =
     (if a < length (tables s) then map_of (symbols (tables s ! a)) name else None)"

text \<open>
  Modelled from the spec: the printing utility is not part of the source; it writes a
  line to the console.
\<close>

definition print :: "string \<Rightarrow> store \<Rightarrow> store" where
  "print line s = s\<lparr>console := console s @ [Printed line]\<rparr>"

text \<open>
  The host's \<open>prompt\<close> writes the message and reads a line; it returns null at the end
  of input.
\<close>

definition prompt :: "string \<Rightarrow> store \<Rightarrow> string option \<times> store" where
  "prompt message s =
     (case stdin s of
        [] \<Rightarrow> (None, s\<lparr>console := console s @ [Prompted message]\<rparr>)
      | l # ls \<Rightarrow> (Some l, s\<lparr>console := console s @ [Prompted message], stdin := ls\<rparr>))"

definition SWNull_new :: val where
  "SWNull_new = Val SWNull None None None"

definition SWBoolean_of :: "bool \<Rightarrow> val" where
  "SWBoolean_of b = Val (SWBoolean b) None None None"

definition execute_andika :: "host \<Rightarrow> context \<Rightarrow> rtresult comp" where
  "execute_andika H executionContext s =
     (case getSymbol executionContext ''value'' s of
        None \<Rightarrow> Some (Throw TypeError, s)
      | Some v \<Rightarrow> Some (Return (success RTResult_new (Some SWNull_new)), print (toString H v) s))"

definition execute_soma :: "host \<Rightarrow> context \<Rightarrow> rtresult comp" where
  "execute_soma H executionContext s =
     (case getSymbol executionContext ''message'' s of
        None \<Rightarrow> Some (Throw TypeError, s)
      | Some m \<Rightarrow>
          (case prompt (toString H m) s of
             (textInput, s') \<Rightarrow>
               Some (Return (success RTResult_new
                       (Some (Val (SWString (case textInput of None \<Rightarrow> [] | Some l \<Rightarrow> utf16 l))
                                None None None))), s')))"

text \<open>
  The loop of \<open>execute_somaNambari\<close>: a line that is not a number is answered and the
  question asked again; null (the end of input) and the empty line count as 0.
\<close>

function readNumber :: "host \<Rightarrow> string \<Rightarrow> store \<Rightarrow> number \<times> store" where
  "readNumber H message s =
     (case prompt message s of
        (None, s') \<Rightarrow> (0, s')
      | (Some l, s') \<Rightarrow>
          (case parseNumber H l of
             None \<Rightarrow> readNumber H message (print ''Jibu yako si nambari. Jaribu tena.'' s')
           | Some x \<Rightarrow> (if l = [] then 0 else x, s')))"
  by pat_completeness auto
termination
  by (relation "measure (\<lambda>(H, message, s). length (stdin s))")
     (auto simp: prompt_def print_def split: list.splits)

declare readNumber.simps [simp del]

definition execute_somaNambari :: "host \<Rightarrow> context \<Rightarrow> rtresult comp" where
  "execute_somaNambari H executionContext s =
     (case getSymbol executionContext ''message'' s of
        None \<Rightarrow> Some (Throw TypeError, s)
      | Some m \<Rightarrow>
          (case readNumber H (toString H m) s of
             (numInput, s') \<Rightarrow>
               Some (Return (success RTResult_new (Some (Val (SWNumber numInput) None None None))),
                     s')))"

definition execute_futa :: "context \<Rightarrow> rtresult comp" where
  "execute_futa executionContext s =
     Some (Return (success RTResult_new (Some SWNull_new)), s\<lparr>console := console s @ [Cleared]\<rparr>)"

definition execute_niNambari :: "context \<Rightarrow> rtresult comp" where
  "execute_niNambari executionContext s =
     ret (success RTResult_new
            (Some (SWBoolean_of
               (case getSymbol executionContext ''value'' s of
                  Some (Val (SWNumber n) ps pe c) \<Rightarrow> True | _ \<Rightarrow> False)))) s"

definition execute_niJina :: "context \<Rightarrow> rtresult comp" where
  "execute_niJina executionContext s =
     ret (success RTResult_new
            (Some (SWBoolean_of
               (case getSymbol executionContext ''value'' s of
                  Some (Val (SWString x) ps pe c) \<Rightarrow> True | _ \<Rightarrow> False)))) s"

definition execute_niOrodha :: "context \<Rightarrow> rtresult comp" where
  "execute_niOrodha executionContext s =
     ret (success RTResult_new
            (Some (SWBoolean_of
               (case getSymbol executionContext ''value'' s of
                  Some (Val (SWList es) ps pe c) \<Rightarrow> True | _ \<Rightarrow> False)))) s"

definition execute_niShughuli :: "context \<Rightarrow> rtresult comp" where
  "execute_niShughuli executionContext s =
     ret (success RTResult_new
            (Some (SWBoolean_of
               (case getSymbol executionContext ''value'' s of
                  Some v \<Rightarrow> isFunction v | None \<Rightarrow> False)))) s"

definition execute_idadi :: "context \<Rightarrow> rtresult comp" where
  "execute_idadi executionContext s =
     (case getSymbol executionContext ''value'' s of
        None \<Rightarrow> Some (Throw TypeError, s)
      | Some v \<Rightarrow>
          (case payload v of
             SWString x \<Rightarrow>
               ret (success RTResult_new (Some (Val (SWNumber (int (length x))) None None None))) s
           | SWList es \<Rightarrow>
               ret (success RTResult_new (Some (Val (SWNumber (int (length es))) None None None))) s
           | _ \<Rightarrow>
               ret (failure RTResult_new
                      (RTError (posStart v) (posEnd v)
                         ''Cannot find length of non-iterable value'' (Some executionContext))) s))"

definition builtinMethod :: "host \<Rightarrow> builtin \<Rightarrow> context \<Rightarrow> rtresult comp" where
  "builtinMethod H b =
     (case b of
        andika \<Rightarrow> execute_andika H
      | soma \<Rightarrow> execute_soma H
      | somaNambari \<Rightarrow> execute_somaNambari H
      | futa \<Rightarrow> execute_futa
      | niNambari \<Rightarrow> execute_niNambari
      | niJina \<Rightarrow> execute_niJina
      | niOrodha \<Rightarrow> execute_niOrodha
      | niShughuli \<Rightarrow> execute_niShughuli
      | idadi \<Rightarrow> execute_idadi)"

subsection \<open>execute\<close>

record interpreter =
  maxCallStackSize :: nat

definition Interpreter_new :: interpreter where
  "Interpreter_new = \<lparr>maxCallStackSize = 10000\<rparr>"

type_synonym visitor = "node \<Rightarrow> context \<Rightarrow> rtresult comp"

text \<open>
  \<open>execute\<close> of the three kinds of value. \<open>SWFunction.execute\<close> evaluates the body with
  an interpreter of its own (\<open>new Interpreter()\<close>); the argument \<open>INT_visit\<close> is the
  method \<open>visit\<close> of a given interpreter. Every other class has \<open>SWValue.execute\<close>.
\<close>

definition execute ::
  "(interpreter \<Rightarrow> visitor) \<Rightarrow> host \<Rightarrow> val \<Rightarrow> val option list \<Rightarrow> rtresult comp" where
  "execute INT_visit H this args =
     (case payload this of
        SWFunction name bodyNode argNames \<Rightarrow>
          bind (generateNewContext this) (\<lambda>executionContext.
          bind (checkAndPopulateArgs this argNames args executionContext) (\<lambda>r.
            case register RTResult_new r of
              (u, res) \<Rightarrow>
                if rerror res \<noteq> None then ret res
                else bind (INT_visit Interpreter_new bodyNode executionContext) (\<lambda>rb.
                       case register res rb of
                         (v, res') \<Rightarrow>
                           if rerror res' \<noteq> None then ret res' else ret (success res' v))))
      | SWBuiltInFunction b \<Rightarrow>
          bind (generateNewContext this) (\<lambda>executionContext.
          bind (checkAndPopulateArgs this (builtinArgNames b) args executionContext) (\<lambda>r.
            case register RTResult_new r of
              (u, res) \<Rightarrow>
                if rerror res \<noteq> None then ret res
                else bind (builtinMethod H b executionContext) (\<lambda>rb.
                       case register res rb of
                         (returnValue, res') \<Rightarrow>
                           if rerror res' \<noteq> None then ret res'
                           else ret (success res' returnValue))))
      | _ \<Rightarrow> ret (failure RTResult_new (illegalOperation this None)))"

subsection \<open>populateArgs of the class in the types directory\<close>

text \<open>
  The file of the class \<open>SWBaseFunction\<close> on its own has another \<open>populateArgs\<close>, which
  no \<open>execute\<close> in the source calls. It binds each named argument in the execution
  context's table and in the table of the function object itself (\<open>this.symbolTable\<close>,
  here the address \<open>thisTable\<close>), collects the given arguments, and binds the list to
  \<open>__hoja\<close> in both tables. \<open>populateNamed\<close> is its first loop; the second adds the
  arguments from index \<open>allArgs.length\<close> on that are not null.
\<close>

fun populateNamed ::
  "string list \<Rightarrow> val option list \<Rightarrow> val option \<Rightarrow> context \<Rightarrow> nat \<Rightarrow> val list \<Rightarrow> store
     \<Rightarrow> val list \<times> store" where
  "populateNamed [] args nullValue executionContext thisTable allArgs s = (allArgs, s)"
| "populateNamed (argName # argNames) args nullValue executionContext thisTable allArgs s =
     (case (case args of [] \<Rightarrow> nullValue | a # rest \<Rightarrow> a) of
        None \<Rightarrow> populateNamed argNames (tl args) nullValue executionContext thisTable allArgs s
      | Some v \<Rightarrow>
          populateNamed argNames (tl args) nullValue executionContext thisTable
            (if args = [] then allArgs else allArgs @ [setContext v (Some executionContext)])
            (SymbolTable_set thisTable argName (Some (setContext v (Some executionContext)))
               (SymbolTable_set (symbolTable executionContext) argName
                  (Some (setContext v (Some executionContext))) s)))"

definition BaseFunction_populateArgs ::
  "nat \<Rightarrow> string list option \<Rightarrow> val option list \<Rightarrow> context \<Rightarrow> bool \<Rightarrow> rtresult comp" where
  "BaseFunction_populateArgs thisTable argNames args executionContext nullType s =
     (case populateNamed (case argNames of None \<Rightarrow> [] | Some names \<Rightarrow> names) args
             (if nullType then Some SWNull_new else None) executionContext thisTable [] s of
        (allArgs, s1) \<Rightarrow>
          (case Val (SWList (map Some
                   (allArgs @ map the (filter (\<lambda>a. a \<noteq> None) (drop (length allArgs) args)))))
                  None None None of
             hoja \<Rightarrow>
               Some (Return (success RTResult_new (Some SWNull_new)),
                     SymbolTable_set thisTable ''__hoja'' (Some hoja)
                       (SymbolTable_set (symbolTable executionContext) ''__hoja'' (Some hoja) s1))))"

section \<open>The class Interpreter\<close>

definition visitNumberNode :: "number \<Rightarrow> pos \<Rightarrow> pos \<Rightarrow> context \<Rightarrow> rtresult comp" where
  "visitNumberNode v ps pe ctx =
     ret (success RTResult_new
            (Some (setPosition (setContext (Val (SWNumber v) None None None) (Some ctx)) ps pe)))"

definition visitStringNode :: "code_unit list \<Rightarrow> pos \<Rightarrow> pos \<Rightarrow> context \<Rightarrow> rtresult comp" where
  "visitStringNode v ps pe ctx =
     ret (success RTResult_new
            (Some (setPosition (setContext (Val (SWString v) None None None) (Some ctx)) ps pe)))"

text \<open>
  The loop of \<open>visitListNode\<close> and of the arguments in \<open>visitCallNode\<close>: every node's
  value is pushed, and the loop stops at the first error (the caller returns \<open>res\<close>).
\<close>

fun visitEach ::
  "visitor \<Rightarrow> context \<Rightarrow> node list \<Rightarrow> rtresult \<Rightarrow> val option list
     \<Rightarrow> (rtresult \<times> val option list) comp" where
  "visitEach V ctx [] res elements = ret (res, elements)"
| "visitEach V ctx (nd # nds) res elements =
     bind (V nd ctx) (\<lambda>r.
       case register res r of
         (v, res') \<Rightarrow>
           if rerror res' \<noteq> None then ret (res', elements @ [v])
           else visitEach V ctx nds res' (elements @ [v]))"

definition visitListNode :: "visitor \<Rightarrow> node list \<Rightarrow> pos \<Rightarrow> pos \<Rightarrow> context \<Rightarrow> rtresult comp" where
  "visitListNode V elementNodes ps pe ctx =
     bind (visitEach V ctx elementNodes RTResult_new []) (\<lambda>(res, elements).
       if rerror res \<noteq> None then ret res
       else ret (success res
                   (Some (setPosition (setContext (Val (SWList elements) None None None) (Some ctx))
                            ps pe))))"

definition visitVarAccessNode :: "string \<Rightarrow> pos \<Rightarrow> pos \<Rightarrow> context \<Rightarrow> rtresult comp" where
  "visitVarAccessNode varName ps pe ctx s =
     (case getSymbol ctx varName s of
        None \<Rightarrow>
          ret (failure RTResult_new
                 (RTError ps pe ([CHR 0x27] @ varName @ [CHR 0x27] @ '' is not defined'') (Some ctx))) s
      | Some v \<Rightarrow>
          (case copy v of
             Throw e \<Rightarrow> throw e s
           | Return c \<Rightarrow>
               ret (success RTResult_new (Some (setContext (setPosition c ps pe) (Some ctx)))) s))"

definition visitVarAssignNode :: "visitor \<Rightarrow> string \<Rightarrow> node \<Rightarrow> context \<Rightarrow> rtresult comp" where
  "visitVarAssignNode V varName valueNode ctx =
     bind (V valueNode ctx) (\<lambda>r.
       case register RTResult_new r of
         (v, res) \<Rightarrow>
           if rerror res \<noteq> None then ret res
           else bind (modify (SymbolTable_set (symbolTable ctx) varName v))
                  (\<lambda>u. ret (success res v)))"

text \<open>
  \<open>visitBinOpNode\<close>: \<open>result\<close> starts as a new \<open>SWValue\<close>, which stays when no branch
  of the chain takes the operator token. A null left operand throws at the method call,
  a null result at \<open>result.setPosition\<close>.
\<close>

definition visitBinOpNode ::
  "visitor \<Rightarrow> host \<Rightarrow> node \<Rightarrow> tokenType \<Rightarrow> node \<Rightarrow> pos \<Rightarrow> pos \<Rightarrow> context \<Rightarrow> rtresult comp" where
  "visitBinOpNode V H leftNode opTok rightNode ps pe ctx =
     bind (V leftNode ctx) (\<lambda>r1.
       case register RTResult_new r1 of
         (left, res) \<Rightarrow>
           if rerror res \<noteq> None then ret res
           else bind (V rightNode ctx) (\<lambda>r2.
             case register res r2 of
               (right, res') \<Rightarrow>
                 if rerror res' \<noteq> None then ret res'
                 else bind (if opTok = TT_NOT then ret (Some (Val SWValue None None None), None)
                            else (case left of None \<Rightarrow> throw TypeError
                                  | Some l \<Rightarrow> ret (operate H opTok l right)))
                        (\<lambda>(result, error).
                           case error of
                             Some e \<Rightarrow> ret (failure res' e)
                           | None \<Rightarrow>
                               (case result of
                                  None \<Rightarrow> throw TypeError
                                | Some v \<Rightarrow> ret (success res' (Some (setPosition v ps pe)))))))"

definition visitUnaryOpNode ::
  "visitor \<Rightarrow> host \<Rightarrow> tokenType \<Rightarrow> node \<Rightarrow> pos \<Rightarrow> pos \<Rightarrow> context \<Rightarrow> rtresult comp" where
  "visitUnaryOpNode V H opTok nd ps pe ctx =
     bind (V nd ctx) (\<lambda>r.
       case register RTResult_new r of
         (number, res) \<Rightarrow>
           if rerror res \<noteq> None then ret res
           else (case number of
                   None \<Rightarrow> throw TypeError
                 | Some v \<Rightarrow>
                     bind (if opTok = TT_MINUS
                           then ret (operate H TT_MUL v (Some (Val (SWNumber (- 1)) None None None)))
                           else if opTok = TT_NOT
                           then (case notted v of Throw e \<Rightarrow> throw e | Return p \<Rightarrow> ret p)
                           else ret (Some v, None))
                       (\<lambda>(number', error).
                          case error of
                            Some e \<Rightarrow> ret (failure res e)
                          | None \<Rightarrow>
                              (case number' of
                                 None \<Rightarrow> throw TypeError
                               | Some w \<Rightarrow> ret (success res (Some (setPosition w ps pe)))))))"

fun visitIfCases ::
  "visitor \<Rightarrow> context \<Rightarrow> (node \<times> node) list \<Rightarrow> node option \<Rightarrow> rtresult \<Rightarrow> rtresult comp" where
  "visitIfCases V ctx [] elseCase res =
     (case elseCase of
        Some elseNode \<Rightarrow>
          bind (V elseNode ctx) (\<lambda>r.
            case register res r of
              (elseValue, res') \<Rightarrow>
                if rerror res' \<noteq> None then ret res' else ret (success res' elseValue))
      | None \<Rightarrow> ret (success res None))"
| "visitIfCases V ctx ((condition, expr) # cases) elseCase res =
     bind (V condition ctx) (\<lambda>r.
       case register res r of
         (conditionValue, res') \<Rightarrow>
           if rerror res' \<noteq> None then ret res'
           else (case conditionValue of
                   None \<Rightarrow> throw TypeError
                 | Some c \<Rightarrow>
                     if isTrue c
                     then bind (V expr ctx) (\<lambda>r'.
                            case register res' r' of
                              (exprValue, res'') \<Rightarrow>
                                if rerror res'' \<noteq> None then ret res''
                                else ret (success res'' exprValue))
                     else visitIfCases V ctx cases elseCase res'))"

definition visitIfNode :: "visitor \<Rightarrow> (node \<times> node) list \<Rightarrow> node option \<Rightarrow> context \<Rightarrow> rtresult comp" where
  "visitIfNode V cases elseCase ctx = visitIfCases V ctx cases elseCase RTResult_new"

text \<open>
  The \<open>while\<close> loop of \<open>visitForNode\<close>, from the first test of the condition on. The
  variable is bound and \<open>i\<close> advanced before the body is evaluated; the counter is
  compared with the bound after the body. The loop need not return: its body may not.
\<close>

partial_function (option) forLoop ::
  "nat \<Rightarrow> string \<Rightarrow> number \<Rightarrow> number \<Rightarrow> rtresult comp \<Rightarrow> pos \<Rightarrow> pos \<Rightarrow> context
     \<Rightarrow> rtresult \<Rightarrow> number \<Rightarrow> nat \<Rightarrow> val option list \<Rightarrow> store
     \<Rightarrow> (rtresult outcome \<times> store) option" where
  "forLoop maxCalls varName endValue stepValue body ps pe ctx res i calls elements s =
     (if (if stepValue \<ge> 0 then i < endValue else i > endValue)
      then (case body (SymbolTable_set (symbolTable ctx) varName
                         (Some (Val (SWNumber i) None None None)) s) of
              None \<Rightarrow> None
            | Some (Throw e, s') \<Rightarrow> Some (Throw e, s')
            | Some (Return r, s') \<Rightarrow>
                (case register res r of
                   (v, res') \<Rightarrow>
                     if rerror res' \<noteq> None then Some (Return res', s')
                     else if calls + 1 = maxCalls
                     then Some (Return (failure res'
                            (RTError ps pe ''Max call stack size exceeded'' (Some ctx))), s')
                     else forLoop maxCalls varName endValue stepValue body ps pe ctx res'
                            (i + stepValue) (calls + 1) (elements @ [v]) s'))
      else Some (Return (success res
                   (Some (setPosition (setContext (Val (SWList elements) None None None) (Some ctx))
                            ps pe))), s))"

declare forLoop.simps [code]

text \<open>
  The field \<open>value\<close> of a number. The development follows a \<open>ForNode\<close> whose start, end
  and step are numbers.
\<close>

definition valueField :: "val \<Rightarrow> number option" where
  "valueField v = (case payload v of SWNumber n \<Rightarrow> Some n | _ \<Rightarrow> None)"

text \<open>
  \<open>visitForNode\<close>. The result of the step expression is registered, and no test of
  \<open>res.error\<close> follows it. Reading \<open>.value\<close> of a null start, step or end throws.
\<close>

definition visitForNode ::
  "visitor \<Rightarrow> interpreter \<Rightarrow> string \<Rightarrow> node \<Rightarrow> node \<Rightarrow> node option \<Rightarrow> node \<Rightarrow> pos \<Rightarrow> pos
     \<Rightarrow> context \<Rightarrow> rtresult comp" where
  "visitForNode V I varName startValueNode endValueNode stepValueNode bodyNode ps pe ctx =
     bind (V startValueNode ctx) (\<lambda>r1.
       case register RTResult_new r1 of
         (startValue, res) \<Rightarrow>
           if rerror res \<noteq> None then ret res
           else bind (V endValueNode ctx) (\<lambda>r2.
             case register res r2 of
               (endValue, res') \<Rightarrow>
                 if rerror res' \<noteq> None then ret res'
                 else bind (case stepValueNode of
                              None \<Rightarrow> ret (Some (Val (SWNumber 1) None None None), res')
                            | Some stepNode \<Rightarrow> bind (V stepNode ctx) (\<lambda>r3. ret (register res' r3)))
                        (\<lambda>(stepValue, res'').
                           case startValue of
                             None \<Rightarrow> throw TypeError
                           | Some startV \<Rightarrow>
                               (case stepValue of
                                  None \<Rightarrow> throw TypeError
                                | Some stepV \<Rightarrow>
                                    (case endValue of
                                       None \<Rightarrow> throw TypeError
                                     | Some endV \<Rightarrow>
                                         (case (valueField startV, valueField stepV,
                                                valueField endV) of
                                            (Some i, Some st, Some e) \<Rightarrow>
                                              forLoop (maxCallStackSize I) varName e st
                                                (V bodyNode ctx) ps pe ctx res'' i 0 []
                                          | _ \<Rightarrow> throw Unmodelled))))))"

text \<open>The \<open>while (true)\<close> loop of \<open>visitWhileNode\<close>.\<close>

partial_function (option) whileLoop ::
  "nat \<Rightarrow> rtresult comp \<Rightarrow> rtresult comp \<Rightarrow> pos \<Rightarrow> pos \<Rightarrow> context
     \<Rightarrow> rtresult \<Rightarrow> nat \<Rightarrow> val option list \<Rightarrow> store
     \<Rightarrow> (rtresult outcome \<times> store) option" where
  "whileLoop maxCalls cond body ps pe ctx res calls elements s =
     (case cond s of
        None \<Rightarrow> None
      | Some (Throw e, s1) \<Rightarrow> Some (Throw e, s1)
      | Some (Return rc, s1) \<Rightarrow>
          (case register res rc of
             (condition, res1) \<Rightarrow>
               if rerror res1 \<noteq> None then Some (Return res1, s1)
               else (case condition of
                       None \<Rightarrow> Some (Throw TypeError, s1)
                     | Some c \<Rightarrow>
                         if \<not> isTrue c
                         then Some (Return (success res1
                                (Some (setPosition
                                   (setContext (Val (SWList elements) None None None) (Some ctx))
                                   ps pe))), s1)
                         else (case body s1 of
                                 None \<Rightarrow> None
                               | Some (Throw e, s2) \<Rightarrow> Some (Throw e, s2)
                               | Some (Return rb, s2) \<Rightarrow>
                                   (case register res1 rb of
                                      (v, res2) \<Rightarrow>
                                        if rerror res2 \<noteq> None then Some (Return res2, s2)
                                        else if calls + 1 = maxCalls
                                        then Some (Return (failure res2
                                               (RTError ps pe ''Max call stack size exceeded''
                                                  (Some ctx))), s2)
                                        else whileLoop maxCalls cond body ps pe ctx res2
                                               (calls + 1) (elements @ [v]) s2)))))"

declare whileLoop.simps [code]

definition visitWhileNode ::
  "visitor \<Rightarrow> interpreter \<Rightarrow> node \<Rightarrow> node \<Rightarrow> pos \<Rightarrow> pos \<Rightarrow> context \<Rightarrow> rtresult comp" where
  "visitWhileNode V I conditionNode bodyNode ps pe ctx =
     whileLoop (maxCallStackSize I) (V conditionNode ctx) (V bodyNode ctx) ps pe ctx
       RTResult_new 0 []"

definition visitFuncDefNode ::
  "string option \<Rightarrow> string list \<Rightarrow> node \<Rightarrow> pos \<Rightarrow> pos \<Rightarrow> context \<Rightarrow> rtresult comp" where
  "visitFuncDefNode funcName argNames bodyNode ps pe ctx =
     (case setPosition (setContext (SWFunction_new funcName bodyNode argNames) (Some ctx)) ps pe of
        funcValue \<Rightarrow>
          bind (case funcName of
                  Some name \<Rightarrow> modify (SymbolTable_set (symbolTable ctx) name (Some funcValue))
                | None \<Rightarrow> ret ())
            (\<lambda>u. ret (success RTResult_new (Some funcValue))))"

definition visitCallNode ::
  "visitor \<Rightarrow> (interpreter \<Rightarrow> visitor) \<Rightarrow> host \<Rightarrow> node \<Rightarrow> node list \<Rightarrow> pos \<Rightarrow> pos \<Rightarrow> context
     \<Rightarrow> rtresult comp" where
  "visitCallNode V INT_visit H nodeToCall argNodes ps pe ctx =
     bind (V nodeToCall ctx) (\<lambda>r.
       case register RTResult_new r of
         (callee, res) \<Rightarrow>
           if rerror res \<noteq> None then ret res
           else (case callee of
                   None \<Rightarrow> throw TypeError
                 | Some f \<Rightarrow>
                     (case copy f of
                        Throw e \<Rightarrow> throw e
                      | Return c \<Rightarrow>
                          bind (visitEach V ctx argNodes res []) (\<lambda>(res', args).
                            if rerror res' \<noteq> None then ret res'
                            else bind (execute INT_visit H (setPosition c ps pe) args) (\<lambda>rx.
                                   case register res' rx of
                                     (returnValue, res'') \<Rightarrow>
                                       if rerror res'' \<noteq> None then ret res''
                                       else (case returnValue of
                                               None \<Rightarrow> ret (success res'' None)
                                             | Some rv \<Rightarrow>
                                                 (case copy rv of
                                                    Throw e \<Rightarrow> throw e
                                                  | Return c' \<Rightarrow>
                                                      ret (success res''
                                                        (Some (setContext (setPosition c' ps pe)
                                                                 (Some ctx)))))))))))"

text \<open>
  \<open>visit\<close>: the dispatch on the node's class. The first argument bounds the depth of
  nested calls of \<open>visit\<close>; at depth 0 the call does not return. Loops do not use it up.
\<close>

fun visit :: "nat \<Rightarrow> interpreter \<Rightarrow> host \<Rightarrow> node \<Rightarrow> context \<Rightarrow> rtresult comp" where
  "visit 0 I H nd ctx = (\<lambda>s. None)"
| "visit (Suc n) I H (NumberNode v ps pe) ctx = visitNumberNode v ps pe ctx"
| "visit (Suc n) I H (StringNode v ps pe) ctx = visitStringNode v ps pe ctx"
| "visit (Suc n) I H (ListNode elementNodes ps pe) ctx =
     visitListNode (visit n I H) elementNodes ps pe ctx"
| "visit (Suc n) I H (VarAccessNode varName ps pe) ctx = visitVarAccessNode varName ps pe ctx"
| "visit (Suc n) I H (VarAssignNode varName valueNode ps pe) ctx =
     visitVarAssignNode (visit n I H) varName valueNode ctx"
| "visit (Suc n) I H (BinOpNode leftNode opTok rightNode ps pe) ctx =
     visitBinOpNode (visit n I H) H leftNode opTok rightNode ps pe ctx"
| "visit (Suc n) I H (UnaryOpNode opTok nd ps pe) ctx =
     visitUnaryOpNode (visit n I H) H opTok nd ps pe ctx"
| "visit (Suc n) I H (IfNode cases elseCase ps pe) ctx =
     visitIfNode (visit n I H) cases elseCase ctx"
| "visit (Suc n) I H (ForNode varName startValueNode endValueNode stepValueNode bodyNode ps pe) ctx =
     visitForNode (visit n I H) I varName startValueNode endValueNode stepValueNode bodyNode
       ps pe ctx"
| "visit (Suc n) I H (WhileNode conditionNode bodyNode ps pe) ctx =
     visitWhileNode (visit n I H) I conditionNode bodyNode ps pe ctx"
| "visit (Suc n) I H (FuncDefNode funcName argNames bodyNode ps pe) ctx =
     visitFuncDefNode funcName argNames bodyNode ps pe ctx"
| "visit (Suc n) I H (CallNode nodeToCall argNodes ps pe) ctx =
     visitCallNode (visit n I H) (\<lambda>J. visit n J H) H nodeToCall argNodes ps pe ctx"

section \<open>A program's start\<close>

text \<open>
  Modelled from the spec: the set-up of a run is not part of the source. The global
  symbol table holds the built-in functions and the constants \<open>tupu\<close>, \<open>kweli\<close> and
  \<open>uwongo\<close> before any code runs; the global context has no parent.
\<close>

definition globalSymbolTable :: symtab where
  "globalSymbolTable =
     \<lparr>symbols =
        [(''tupu'', Val SWNull None None None),
         (''kweli'', Val (SWBoolean True) None None None),
         (''uwongo'', Val (SWBoolean False) None None None),
         (''andika'', Val (SWBuiltInFunction andika) None None None),
         (''soma'', Val (SWBuiltInFunction soma) None None None),
         (''somaNambari'', Val (SWBuiltInFunction somaNambari) None None None),
         (''futa'', Val (SWBuiltInFunction futa) None None None),
         (''niNambari'', Val (SWBuiltInFunction niNambari) None None None),
         (''niJina'', Val (SWBuiltInFunction niJina) None None None),
         (''niOrodha'', Val (SWBuiltInFunction niOrodha) None None None),
         (''niShughuli'', Val (SWBuiltInFunction niShughuli) None None None),
         (''idadi'', Val (SWBuiltInFunction idadi) None None None)],
      parentTable = None\<rparr>"

definition globalContext :: "context" where
  "globalContext = Context ''<program>'' None None 0"

definition initialStore :: store where
  "initialStore = \<lparr>tables = [globalSymbolTable], console = [], stdin = []\<rparr>"

text \<open>
  A host for the runs evaluated below, none of which reaches an operation of the value
  classes outside the source: every such operation is illegal, nothing is rendered.
\<close>

definition exampleHost :: host where
  "exampleHost =
     \<lparr>binaryOp = (\<lambda>tok l r. (None, Some (illegalOperation l r))),
      render = (\<lambda>v. []),
      parseNumber = (\<lambda>l. None),
      cyan = (\<lambda>x. x),
      brightCyan = (\<lambda>x. x)\<rparr>"

text \<open>
  \<open>shughuli gen(n) { shughuli add(x) { n } }\<close> followed by \<open>gen(10)(5)\<close>: the inner
  function reads the outer function's parameter.
\<close>

definition closureProgram :: node where
  "closureProgram =
     ListNode
       [FuncDefNode (Some ''gen'') [''n'']
          (FuncDefNode (Some ''add'') [''x''] (VarAccessNode ''n'' None None) None None)
          None None,
        CallNode
          (CallNode (VarAccessNode ''gen'' None None) [NumberNode 10 None None] None None)
          [NumberNode 5 None None] None None]
       None None"


section \<open>Evaluating runs\<close>

lemmas visit_numeral [simp] =
  visit.simps(2-13) [of "pred_numeral k", folded numeral_eq_Suc] for k

lemmas run_defs =
  RTResult_new_def success_def failure_def register_def SymbolTable_new_def SymbolTable_set_def
  SymbolTable_get.simps ret_def throw_def bind_def modify_def setPosition_def setContext_def
  illegalOperation_def isFunction_def inheritsSWValue_def valueClass_isTrue_def
  valueClass_copy_def valueClass_notted_def isTrue_def copy_def notted_def
  operate_def builtinName_def toString_def SWFunction_new_def functionName_def
  generateNewContext_def checkArgs_def checkAndPopulateArgs_def builtinArgNames_def
  getSymbol_def ownBinding_def print_def prompt_def SWNull_new_def SWBoolean_of_def
  execute_andika_def
  execute_soma_def execute_futa_def execute_niNambari_def execute_niJina_def
  execute_niOrodha_def execute_niShughuli_def execute_idadi_def builtinMethod_def execute_def
  visitNumberNode_def visitStringNode_def visitListNode_def visitVarAccessNode_def
  visitVarAssignNode_def visitBinOpNode_def visitUnaryOpNode_def visitIfNode_def
  visitForNode_def valueField_def visitWhileNode_def visitFuncDefNode_def visitCallNode_def
  forLoop.simps whileLoop.simps exampleHost_def globalSymbolTable_def globalContext_def initialStore_def
  Interpreter_new_def string_of_nat.simps digit_def utf16_def

section \<open>Auxiliary facts\<close>

lemma generateNewContext_carried:
  "generateNewContext (Val p ps pe (Some c)) s =
     Some (Return (Context (functionName (Val p ps pe (Some c))) (Some c) ps (length (tables s))),
           s\<lparr>tables := tables s @ [\<lparr>symbols = [], parentTable = Some (symbolTable c)\<rparr>]\<rparr>)"
  by (simp add: generateNewContext_def SymbolTable_new_def)

lemma checkArgs_mismatch:
  "length args \<noteq> length argNames \<Longrightarrow>
   checkArgs this argNames args =
     RTResult None (Some (RTError (posStart this) (posEnd this)
       ((if length argNames < length args
         then string_of_nat (length args - length argNames) @ '' too many args passed into ''
         else string_of_nat (length argNames - length args) @ '' too few args passed into '')
        @ functionName this) (vcontext this)))"
  by (auto simp: checkArgs_def failure_def)

lemma checkArgs_match:
  "length args = length argNames \<Longrightarrow>
   checkArgs this argNames args = RTResult (Some (Val SWNull None None None)) None"
  by (simp add: checkArgs_def success_def RTResult_new_def)

lemma checkAndPopulateArgs_mismatch:
  "length args \<noteq> length argNames \<Longrightarrow>
   checkAndPopulateArgs this argNames args ectx t =
     Some (Return (checkArgs this argNames args), t)"
  by (simp add: checkAndPopulateArgs_def checkArgs_mismatch register_def RTResult_new_def ret_def)

lemma SymbolTable_get_own:
  "a < length ts \<Longrightarrow> map_of (symbols (ts ! a)) x = Some v \<Longrightarrow> SymbolTable_get ts a x = Some v"
  by (subst SymbolTable_get.simps) simp

lemma setContext_sel:
  "payload (setContext v c) = payload v" "posStart (setContext v c) = posStart v"
  "posEnd (setContext v c) = posEnd v" "vcontext (setContext v c) = c"
  by (simp_all add: setContext_def)


subsection \<open>Calls\<close>

lemma checkAndPopulateArgs_match:
  "length args = length argNames \<Longrightarrow>
   checkAndPopulateArgs this argNames args ectx =
     bind (populateArgs argNames args ectx) (\<lambda>u. ret (RTResult None None))"
  by (simp add: checkAndPopulateArgs_def checkArgs_match register_def RTResult_new_def
      success_def)

lemma register_fresh: "register RTResult_new (RTResult None None) = (None, RTResult None None)"
  by (simp add: register_def RTResult_new_def)

lemma finish_call:
  "(case register (RTResult None None) rb of
      (v, res') \<Rightarrow> if rerror res' \<noteq> None then ret res' else ret (success res' v)) =
   ret (if rerror rb \<noteq> None then RTResult None (rerror rb) else RTResult (rvalue rb) None)"
  by (cases "rerror rb") (simp_all add: register_def success_def)

lemma bind_assoc: "bind (bind m f) g = bind m (\<lambda>x. bind (f x) g)"
  by (intro ext) (simp add: bind_def split: option.splits outcome.splits prod.splits)

lemma bind_ret: "bind (ret x) f = f x"
  by (intro ext) (simp add: bind_def ret_def)

lemma length_tables_set [simp]:
  "length (tables (SymbolTable_set a x v s)) = length (tables s)"
  by (simp add: SymbolTable_set_def)

lemma populateNamed_all:
  "length args = length argNames \<Longrightarrow> list_all (\<lambda>a. a \<noteq> None) args \<Longrightarrow>
   fst (populateNamed argNames args nullValue ec tt acc s) =
     acc @ map (\<lambda>a. setContext (the a) (Some ec)) args \<and>
   length (tables (snd (populateNamed argNames args nullValue ec tt acc s))) = length (tables s)"
proof (induction argNames arbitrary: args acc s)
  case Nil
  then show ?case by simp
next
  case (Cons argName argNames)
  then obtain v rest where args: "args = Some v # rest"
    by (cases args) auto
  with Cons.prems have "length rest = length argNames" "list_all (\<lambda>a. a \<noteq> None) rest"
    by simp_all
  from Cons.IH [OF this] show ?case
    using args by simp
qed

lemma ownBinding_set_other:
  "ownBinding (SymbolTable_set b y (Some w) s) a x =
     (if a = b \<and> x = y \<and> a < length (tables s) then Some w else ownBinding s a x)"
  by (auto simp: ownBinding_def SymbolTable_set_def update_conv' nth_list_update)

lemma getSymbol_own:
  "ownBinding s (symbolTable ctx) x = Some v \<Longrightarrow> getSymbol ctx x s = Some v"
  by (auto simp: getSymbol_def ownBinding_def SymbolTable_get_own split: if_splits)

lemma BaseFunction_populateArgs_binds_hoja:
  assumes "length args = length argNames" and "list_all (\<lambda>a. a \<noteq> None) args"
    and "symbolTable ec < length (tables s)"
  shows "\<exists>s'. BaseFunction_populateArgs tt (Some argNames) args ec nullType s =
            Some (Return (RTResult (Some SWNull_new) None), s') \<and>
          getSymbol ec ''__hoja'' s' =
            Some (Val (SWList (map (\<lambda>a. Some (setContext (the a) (Some ec))) args))
                    None None None)"
proof -
  let ?nv = "if nullType then Some SWNull_new else None"
  obtain allArgs s1 where p: "populateNamed argNames args ?nv ec tt [] s = (allArgs, s1)"
    by fastforce
  from populateNamed_all [OF assms(1,2), of ?nv ec tt "[]" s] p
  have all: "allArgs = map (\<lambda>a. setContext (the a) (Some ec)) args"
    and len: "length (tables s1) = length (tables s)" by simp_all
  let ?hoja = "Val (SWList (map (\<lambda>a. Some (setContext (the a) (Some ec))) args)) None None None"
  let ?s' = "SymbolTable_set tt ''__hoja'' (Some ?hoja)
               (SymbolTable_set (symbolTable ec) ''__hoja'' (Some ?hoja) s1)"
  have run: "BaseFunction_populateArgs tt (Some argNames) args ec nullType s =
      Some (Return (RTResult (Some SWNull_new) None), ?s')"
    using p all by (simp add: BaseFunction_populateArgs_def success_def RTResult_new_def comp_def)
  have "ownBinding ?s' (symbolTable ec) ''__hoja'' = Some ?hoja"
    using assms(3) len by (simp add: ownBinding_set_other)
  then have "getSymbol ec ''__hoja'' ?s' = Some ?hoja" by (rule getSymbol_own)
  with run show ?thesis by blast
qed

subsection \<open>The loops\<close>









subsection \<open>The loop variable\<close>





section \<open>Truthiness of function values\<close>

text \<open>
  C4, as the code has it: a function value, user-defined or built-in, is not truthy.
  Neither function class overrides \<open>SWValue.isTrue\<close>, which returns false. So an
  \<open>IfNode\<close> whose only condition evaluates to a function value, and which has no else
  case, does not evaluate its body and returns null.
\<close>

theorem function_values_not_truthy:
  "isTrue (Val (SWFunction name bodyNode argNames) ps pe c) = False \<and>
   isTrue (Val (SWBuiltInFunction b) ps pe c) = False \<and>
   (visit n I H condition ctx s = Some (Return (RTResult (Some v) None), s1) \<and> isFunction v \<longrightarrow>
      visit (Suc n) I H (IfNode [(condition, expr)] None ps' pe') ctx s =
        Some (Return (RTResult None None), s1))"
  by (simp add: isTrue_def inheritsSWValue_def isFunction_def visitIfNode_def bind_def
      register_def RTResult_new_def success_def ret_def)

text \<open>\<open>kama shughuli () { 1 } { 2 }\<close> is null.\<close>

theorem function_values_not_truthy_witness:
  "visit 2 Interpreter_new exampleHost
     (FuncDefNode None [] (NumberNode 1 None None) None None) globalContext initialStore
   = Some (Return (RTResult
       (Some (Val (SWFunction ''<isiyotambuliwa>'' (NumberNode 1 None None) []) None None
                (Some globalContext))) None), initialStore) \<and>
   isFunction (Val (SWFunction ''<isiyotambuliwa>'' (NumberNode 1 None None) []) None None
                (Some globalContext)) \<and>
   visit 3 Interpreter_new exampleHost
     (IfNode [(FuncDefNode None [] (NumberNode 1 None None) None None,
               NumberNode 2 None None)] None None None)
     globalContext initialStore
   = Some (Return (RTResult None None), initialStore)"
proof -
  let ?f = "Val (SWFunction ''<isiyotambuliwa>'' (NumberNode 1 None None) []) None None
                (Some globalContext)"
  let ?def = "FuncDefNode None [] (NumberNode 1 None None) None None"
  have run: "visit 2 Interpreter_new exampleHost ?def globalContext initialStore
      = Some (Return (RTResult (Some ?f) None), initialStore)"
    by (simp add: run_defs)
  have fn: "isFunction ?f" by (simp add: isFunction_def)
  from function_values_not_truthy [where n = 2 and I = Interpreter_new and H = exampleHost
      and condition = ?def and ctx = globalContext and s = initialStore and v = ?f
      and ?s1.0 = initialStore and expr = "NumberNode 2 None None" and ps' = None and pe' = None]
    run fn
  have "visit (Suc 2) Interpreter_new exampleHost
      (IfNode [(?def, NumberNode 2 None None)] None None None) globalContext initialStore
      = Some (Return (RTResult None None), initialStore)"
    by blast
  then show ?thesis using run fn by (simp add: eval_nat_numeral)
qed

text \<open>
  C4, as the claim states it, fails: the built-in \<open>andika\<close> is not truthy, and as the
  condition of an \<open>IfNode\<close> it does not select its case, so the result is null.
\<close>

theorem function_truthy_counterexample:
  "\<not> isTrue (Val (SWBuiltInFunction andika) None None None) \<and>
   visit 3 Interpreter_new exampleHost
     (IfNode [(VarAccessNode ''andika'' None None, NumberNode 1 None None)] None None None)
     globalContext initialStore
   = Some (Return (RTResult None None), initialStore)"
  by (simp add: run_defs)

section \<open>Unary not on function values\<close>

text \<open>
  C5, at the failing input \<open>!andika\<close>: \<open>SWValue.notted\<close> throws a ReferenceError, so
  the run ends with a host exception and yields no Boolean.
\<close>

theorem notted_function_throws:
  "notted (Val (SWBuiltInFunction andika) None None (Some globalContext))
     = Throw (ReferenceError ''other'') \<and>
   visit 3 Interpreter_new exampleHost
     (UnaryOpNode TT_NOT (VarAccessNode ''andika'' None None) None None)
     globalContext initialStore
   = Some (Throw (ReferenceError ''other''), initialStore)"
  by (simp add: run_defs)

section \<open>The step expression of a ForNode\<close>

text \<open>
  C3, at the failing input \<open>kwa i = 0 mpaka 3 hatua h { 7 }\<close> with \<open>h\<close> unbound: the
  error of the step expression is registered and not returned; the visitor goes on,
  reads \<open>.value\<close> of the null step value and throws, where the start and the end
  expression return the error.
\<close>

theorem for_step_error_not_returned:
  "visit 3 Interpreter_new exampleHost
     (ForNode ''i'' (NumberNode 0 None None) (NumberNode 3 None None)
        (Some (VarAccessNode ''h'' None None)) (NumberNode 7 None None) None None)
     globalContext initialStore
   = Some (Throw TypeError, initialStore) \<and>
   visit 3 Interpreter_new exampleHost
     (ForNode ''i'' (VarAccessNode ''h'' None None) (NumberNode 3 None None)
        None (NumberNode 7 None None) None None)
     globalContext initialStore
   = Some (Return (RTResult None (Some (RTError None None
             ([CHR 0x27] @ ''h'' @ [CHR 0x27] @ '' is not defined'') (Some globalContext)))),
           initialStore)"
  by (simp add: run_defs)

section \<open>The arity check\<close>

text \<open>
  C7: a call whose number of arguments differs from the number of declared parameter
  names returns an error with the position of the function value (which \<open>visitCallNode\<close>
  has set to the call's), whose message counts the arguments that are too many or too
  few and names the function. The result is the same whatever the visitor \<open>INT_visit\<close>
  and the host are, and the console is left as it was: neither the body nor a host
  handler is evaluated. The only effect is the new, empty symbol table of the execution
  context, which is built before the check.
\<close>

theorem arity_mismatch:
  assumes "vcontext this = Some c"
    and "payload this = SWFunction name bodyNode argNames \<or>
         payload this = SWBuiltInFunction b \<and> argNames = builtinArgNames b"
    and "length args \<noteq> length argNames"
  shows "execute INT_visit H this args s =
     Some (Return (RTResult None (Some (RTError (posStart this) (posEnd this)
             ((if length argNames < length args
               then string_of_nat (length args - length argNames) @ '' too many args passed into ''
               else string_of_nat (length argNames - length args) @ '' too few args passed into '')
              @ functionName this) (Some c)))),
           s\<lparr>tables := tables s @ [\<lparr>symbols = [], parentTable = Some (symbolTable c)\<rparr>]\<rparr>)"
proof -
  obtain p ps pe where shape: "this = Val p ps pe (Some c)"
    using assms(1) by (cases this) auto
  have gen: "generateNewContext this s =
      Some (Return (Context (functionName this) (Some c) (posStart this) (length (tables s))),
            s\<lparr>tables := tables s @ [\<lparr>symbols = [], parentTable = Some (symbolTable c)\<rparr>]\<rparr>)"
    unfolding shape by (simp add: generateNewContext_carried)
  have res: "register RTResult_new (checkArgs this argNames args) =
      (None, checkArgs this argNames args)"
    using assms(3) by (simp add: checkArgs_mismatch register_def RTResult_new_def)
  from assms(2) show ?thesis
  proof
    assume "payload this = SWFunction name bodyNode argNames"
    then show ?thesis
      using assms(3)
      by (simp add: execute_def bind_def gen checkAndPopulateArgs_mismatch res ret_def)
         (simp add: checkArgs_mismatch assms(1))
  next
    assume "payload this = SWBuiltInFunction b \<and> argNames = builtinArgNames b"
    then show ?thesis
      using assms(3) res
      by (simp add: execute_def bind_def gen checkAndPopulateArgs_mismatch ret_def)
         (simp add: checkArgs_mismatch assms(1))
  qed
qed

theorem arity_mismatch_witness:
  "execute (\<lambda>J nd ctx s. None) exampleHost
     (Val (SWFunction ''mara'' (NumberNode 1 None None) [''a'', ''b'']) None None (Some globalContext))
     [Some (Val (SWNumber 6) None None None)] initialStore =
   Some (Return (RTResult None (Some (RTError None None ''1 too few args passed into mara''
             (Some globalContext)))),
         initialStore\<lparr>tables := tables initialStore @ [\<lparr>symbols = [], parentTable = Some 0\<rparr>]\<rparr>)"
  using arity_mismatch [of "Val (SWFunction ''mara'' (NumberNode 1 None None) [''a'', ''b'']) None None (Some globalContext)"
      globalContext "''mara''" "NumberNode 1 None None" "[''a'', ''b'']" andika
      "[Some (Val (SWNumber 6) None None None)]" "\<lambda>J nd ctx s. None" exampleHost initialStore]
  by (simp add: functionName_def string_of_nat.simps digit_def globalContext_def)

section \<open>The built-in idadi\<close>

text \<open>
  C8: \<open>idadi\<close> applied to a string returns the number of its code units, applied to a
  list the number of its elements, and applied to any other value an error with the
  message "Cannot find length of non-iterable value", at the argument's position.
\<close>

theorem idadi_length:
  "execute INT_visit H (Val (SWBuiltInFunction idadi) ps pe (Some c)) [Some v] s =
     Some (Return
       (case payload v of
          SWString x \<Rightarrow> RTResult (Some (Val (SWNumber (int (length x))) None None None)) None
        | SWList es \<Rightarrow> RTResult (Some (Val (SWNumber (int (length es))) None None None)) None
        | _ \<Rightarrow> RTResult None (Some (RTError (posStart v) (posEnd v)
                  ''Cannot find length of non-iterable value''
                  (Some (Context ''idadi'' (Some c) ps (length (tables s))))))),
       s\<lparr>tables := tables s @
          [\<lparr>symbols = [(''value'',
               setContext v (Some (Context ''idadi'' (Some c) ps (length (tables s)))))],
            parentTable = Some (symbolTable c)\<rparr>]\<rparr>)"
proof -
  let ?ectx = "Context ''idadi'' (Some c) ps (length (tables s))"
  let ?s1 = "s\<lparr>tables := tables s @ [\<lparr>symbols = [], parentTable = Some (symbolTable c)\<rparr>]\<rparr>"
  let ?s2 = "s\<lparr>tables := tables s @
      [\<lparr>symbols = [(''value'', setContext v (Some ?ectx))], parentTable = Some (symbolTable c)\<rparr>]\<rparr>"
  have gen: "generateNewContext (Val (SWBuiltInFunction idadi) ps pe (Some c)) s
      = Some (Return ?ectx, ?s1)"
    by (simp add: generateNewContext_carried functionName_def builtinName_def)
  have pop: "checkAndPopulateArgs (Val (SWBuiltInFunction idadi) ps pe (Some c))
      (builtinArgNames idadi) [Some v] ?ectx ?s1 = Some (Return (RTResult None None), ?s2)"
    by (simp add: checkAndPopulateArgs_def checkArgs_match builtinArgNames_def register_def
        RTResult_new_def ret_def bind_def modify_def SymbolTable_set_def success_def)
  have look: "getSymbol ?ectx ''value'' ?s2 = Some (setContext v (Some ?ectx))"
    by (simp add: getSymbol_def SymbolTable_get_own)
  have meth: "execute_idadi ?ectx ?s2 =
      Some (Return
       (case payload v of
          SWString x \<Rightarrow> RTResult (Some (Val (SWNumber (int (length x))) None None None)) None
        | SWList es \<Rightarrow> RTResult (Some (Val (SWNumber (int (length es))) None None None)) None
        | _ \<Rightarrow> RTResult None (Some (RTError (posStart v) (posEnd v)
                  ''Cannot find length of non-iterable value'' (Some ?ectx)))), ?s2)"
    by (simp add: execute_idadi_def look setContext_sel ret_def success_def failure_def
        RTResult_new_def split: payload.splits)
  show ?thesis
    by (simp add: execute_def bind_def gen pop builtinMethod_def meth register_def ret_def
        success_def RTResult_new_def split: payload.splits)
qed

text \<open>\<open>idadi("hello")\<close> is 5, and \<open>idadi(42)\<close> is that error.\<close>

theorem idadi_examples:
  "execute (\<lambda>J nd ctx s. None) exampleHost
     (Val (SWBuiltInFunction idadi) None None (Some globalContext))
     [Some (Val (SWString (utf16 ''hello'')) None None (Some globalContext))] initialStore
   = Some (Return (RTResult (Some (Val (SWNumber 5) None None None)) None),
       initialStore\<lparr>tables := tables initialStore @
          [\<lparr>symbols = [(''value'', Val (SWString (utf16 ''hello'')) None None
                (Some (Context ''idadi'' (Some globalContext) None 1)))],
            parentTable = Some 0\<rparr>]\<rparr>) \<and>
   execute (\<lambda>J nd ctx s. None) exampleHost
     (Val (SWBuiltInFunction idadi) None None (Some globalContext))
     [Some (Val (SWNumber 42) None None (Some globalContext))] initialStore
   = Some (Return (RTResult None (Some (RTError None None
               ''Cannot find length of non-iterable value''
               (Some (Context ''idadi'' (Some globalContext) None 1))))),
       initialStore\<lparr>tables := tables initialStore @
          [\<lparr>symbols = [(''value'', Val (SWNumber 42) None None
                (Some (Context ''idadi'' (Some globalContext) None 1)))],
            parentTable = Some 0\<rparr>]\<rparr>)"
  using idadi_length [of "\<lambda>J nd ctx s. None" exampleHost None None globalContext
      "Val (SWString (utf16 ''hello'')) None None (Some globalContext)" initialStore]
    idadi_length [of "\<lambda>J nd ctx s. None" exampleHost None None globalContext
      "Val (SWNumber 42) None None (Some globalContext)" initialStore]
  by (simp add: setContext_def utf16_def initialStore_def globalContext_def)

section \<open>The interpreter of a function body\<close>



section \<open>The bound on loop iterations\<close>



section \<open>The loop variable after a ForNode\<close>




section \<open>The scope of a function's execution\<close>

text \<open>
  C1, as the code has it: the execution context's symbol table has as its parent the
  table of the context that the function value carries when it is called, for user
  functions and built-ins alike, and the body (or handler) runs in that execution
  context. The value carries the context of the node that produced it: a name's value
  the context of the access, a call's result the context of the call, and only the
  value of a function definition itself the defining context.
\<close>

theorem execution_scope_parent:
  "(vcontext func = Some c \<longrightarrow>
      generateNewContext func s =
        Some (Return (Context (functionName func) (Some c) (posStart func) (length (tables s))),
              s\<lparr>tables := tables s @
                 [\<lparr>symbols = [], parentTable = Some (symbolTable c)\<rparr>]\<rparr>)) \<and>
   (vcontext func = Some c \<and> payload func = SWFunction name bodyNode argNames \<and>
    length args = length argNames \<longrightarrow>
      execute INT_visit H func args s =
        bind (populateArgs argNames args
                (Context name (Some c) (posStart func) (length (tables s))))
          (\<lambda>u. bind (INT_visit Interpreter_new bodyNode
                        (Context name (Some c) (posStart func) (length (tables s))))
                 (\<lambda>rb. ret (if rerror rb \<noteq> None then RTResult None (rerror rb)
                            else RTResult (rvalue rb) None)))
          (s\<lparr>tables := tables s @
              [\<lparr>symbols = [], parentTable = Some (symbolTable c)\<rparr>]\<rparr>)) \<and>
   (vcontext func = Some c \<and> payload func = SWBuiltInFunction b \<and>
    length args = length (builtinArgNames b) \<longrightarrow>
      execute INT_visit H func args s =
        bind (populateArgs (builtinArgNames b) args
                (Context (builtinName b) (Some c) (posStart func) (length (tables s))))
          (\<lambda>u. bind (builtinMethod H b
                        (Context (builtinName b) (Some c) (posStart func) (length (tables s))))
                 (\<lambda>rb. ret (if rerror rb \<noteq> None then RTResult None (rerror rb)
                            else RTResult (rvalue rb) None)))
          (s\<lparr>tables := tables s @
              [\<lparr>symbols = [], parentTable = Some (symbolTable c)\<rparr>]\<rparr>)) \<and>
   ((nd = VarAccessNode x ps pe \<or> nd = FuncDefNode fn an bd ps pe \<or>
     nd = CallNode callee argNodes ps pe) \<and>
    visit (Suc n) I H nd ctx s = Some (Return (RTResult (Some v) None), s') \<longrightarrow>
      vcontext v = Some ctx \<and> posStart v = ps \<and> posEnd v = pe)"
proof (intro conjI impI)
  assume "vcontext func = Some c"
  then show "generateNewContext func s =
        Some (Return (Context (functionName func) (Some c) (posStart func) (length (tables s))),
              s\<lparr>tables := tables s @
                 [\<lparr>symbols = [], parentTable = Some (symbolTable c)\<rparr>]\<rparr>)"
    by (simp add: generateNewContext_def SymbolTable_new_def)
next
  assume h: "vcontext func = Some c \<and> payload func = SWFunction name bodyNode argNames \<and>
    length args = length argNames"
  let ?ectx = "Context name (Some c) (posStart func) (length (tables s))"
  let ?s1 = "s\<lparr>tables := tables s @ [\<lparr>symbols = [], parentTable = Some (symbolTable c)\<rparr>]\<rparr>"
  have gen: "generateNewContext func s = Some (Return ?ectx, ?s1)"
    using h by (simp add: generateNewContext_def SymbolTable_new_def functionName_def)
  have "execute INT_visit H func args s =
      bind (checkAndPopulateArgs func argNames args ?ectx)
        (\<lambda>r. case register RTResult_new r of
              (u, res) \<Rightarrow>
                if rerror res \<noteq> None then ret res
                else bind (INT_visit Interpreter_new bodyNode ?ectx) (\<lambda>rb.
                       case register res rb of
                         (v, res') \<Rightarrow>
                           if rerror res' \<noteq> None then ret res' else ret (success res' v))) ?s1"
    using h by (simp add: execute_def gen bind_def [of "generateNewContext func"])
  also have "\<dots> = bind (populateArgs argNames args ?ectx)
          (\<lambda>u. bind (INT_visit Interpreter_new bodyNode ?ectx)
                 (\<lambda>rb. ret (if rerror rb \<noteq> None then RTResult None (rerror rb)
                            else RTResult (rvalue rb) None))) ?s1"
    using h
    by (simp only: checkAndPopulateArgs_match bind_assoc bind_ret register_fresh prod.case
        rtresult.sel finish_call) simp
  finally show "execute INT_visit H func args s =
        bind (populateArgs argNames args ?ectx)
          (\<lambda>u. bind (INT_visit Interpreter_new bodyNode ?ectx)
                 (\<lambda>rb. ret (if rerror rb \<noteq> None then RTResult None (rerror rb)
                            else RTResult (rvalue rb) None))) ?s1" .
next
  assume h: "vcontext func = Some c \<and> payload func = SWBuiltInFunction b \<and>
    length args = length (builtinArgNames b)"
  let ?ectx = "Context (builtinName b) (Some c) (posStart func) (length (tables s))"
  let ?s1 = "s\<lparr>tables := tables s @ [\<lparr>symbols = [], parentTable = Some (symbolTable c)\<rparr>]\<rparr>"
  have gen: "generateNewContext func s = Some (Return ?ectx, ?s1)"
    using h by (simp add: generateNewContext_def SymbolTable_new_def functionName_def)
  have "execute INT_visit H func args s =
      bind (checkAndPopulateArgs func (builtinArgNames b) args ?ectx)
        (\<lambda>r. case register RTResult_new r of
              (u, res) \<Rightarrow>
                if rerror res \<noteq> None then ret res
                else bind (builtinMethod H b ?ectx) (\<lambda>rb.
                       case register res rb of
                         (v, res') \<Rightarrow>
                           if rerror res' \<noteq> None then ret res' else ret (success res' v))) ?s1"
    using h by (simp add: execute_def gen bind_def [of "generateNewContext func"])
  also have "\<dots> = bind (populateArgs (builtinArgNames b) args ?ectx)
          (\<lambda>u. bind (builtinMethod H b ?ectx)
                 (\<lambda>rb. ret (if rerror rb \<noteq> None then RTResult None (rerror rb)
                            else RTResult (rvalue rb) None))) ?s1"
    using h
    by (simp only: checkAndPopulateArgs_match bind_assoc bind_ret register_fresh prod.case
        rtresult.sel finish_call) simp
  finally show "execute INT_visit H func args s =
        bind (populateArgs (builtinArgNames b) args ?ectx)
          (\<lambda>u. bind (builtinMethod H b ?ectx)
                 (\<lambda>rb. ret (if rerror rb \<noteq> None then RTResult None (rerror rb)
                            else RTResult (rvalue rb) None))) ?s1" .
next
  assume h: "(nd = VarAccessNode x ps pe \<or> nd = FuncDefNode fn an bd ps pe \<or>
     nd = CallNode callee argNodes ps pe) \<and>
    visit (Suc n) I H nd ctx s = Some (Return (RTResult (Some v) None), s')"
  then consider
      (access) "visitVarAccessNode x ps pe ctx s = Some (Return (RTResult (Some v) None), s')"
    | (def) "visitFuncDefNode fn an bd ps pe ctx s = Some (Return (RTResult (Some v) None), s')"
    | (call) "visitCallNode (visit n I H) (\<lambda>J. visit n J H) H callee argNodes ps pe ctx s
                = Some (Return (RTResult (Some v) None), s')"
    by auto
  then have stamped: "vcontext v = Some ctx \<and> posStart v = ps \<and> posEnd v = pe"
  proof cases
    case access
    then show ?thesis
      by (auto simp: visitVarAccessNode_def ret_def throw_def failure_def success_def
          RTResult_new_def setContext_def setPosition_def
          split: option.splits outcome.splits)
  next
    case def
    then show ?thesis
      by (auto simp: visitFuncDefNode_def bind_def modify_def ret_def success_def
          RTResult_new_def setContext_def setPosition_def split: option.splits)
  next
    case call
    then show ?thesis
      by (auto simp: visitCallNode_def bind_def ret_def throw_def register_def success_def
          RTResult_new_def setContext_def setPosition_def
          split: option.splits outcome.splits prod.splits if_splits)
  qed
  from stamped show "vcontext v = Some ctx" by simp
  from stamped show "posStart v = ps" by simp
  from stamped show "posEnd v = pe" by simp
qed

text \<open>
  The function \<open>add\<close> of the closure program as the call \<open>gen(10)\<close> returns it, with
  the global context: its execution table's parent is the global table, and \<open>n\<close> is
  not found. A built-in read at the top level runs under the global table as well.
\<close>

theorem execution_scope_parent_witness:
  "generateNewContext
     (Val (SWFunction ''add'' (VarAccessNode ''n'' None None) [''x'']) None None
        (Some globalContext)) initialStore =
     Some (Return (Context ''add'' (Some globalContext) None 1),
           initialStore\<lparr>tables := tables initialStore @
              [\<lparr>symbols = [], parentTable = Some 0\<rparr>]\<rparr>) \<and>
   execute (\<lambda>J. visit 2 J exampleHost) exampleHost
     (Val (SWFunction ''add'' (VarAccessNode ''n'' None None) [''x'']) None None
        (Some globalContext))
     [Some (Val (SWNumber 5) None None None)] initialStore =
     Some (Return (RTResult None (Some (RTError None None
             ([CHR 0x27] @ ''n'' @ [CHR 0x27] @ '' is not defined'')
             (Some (Context ''add'' (Some globalContext) None 1))))),
           initialStore\<lparr>tables := tables initialStore @
              [\<lparr>symbols = [(''x'', Val (SWNumber 5) None None
                    (Some (Context ''add'' (Some globalContext) None 1)))],
                parentTable = Some 0\<rparr>]\<rparr>) \<and>
   execute (\<lambda>J. visit 2 J exampleHost) exampleHost
     (Val (SWBuiltInFunction niNambari) None None (Some globalContext))
     [Some (Val (SWNumber 5) None None None)] initialStore =
     Some (Return (RTResult (Some (Val (SWBoolean True) None None None)) None),
           initialStore\<lparr>tables := tables initialStore @
              [\<lparr>symbols = [(''value'', Val (SWNumber 5) None None
                    (Some (Context ''niNambari'' (Some globalContext) None 1)))],
                parentTable = Some 0\<rparr>]\<rparr>) \<and>
   vcontext (Val (SWBuiltInFunction idadi) (Some (Position ''a.swh'' 0 0 0))
       (Some (Position ''a.swh'' 0 5 5)) (Some globalContext)) = Some globalContext"
proof -
  let ?add = "Val (SWFunction ''add'' (VarAccessNode ''n'' None None) [''x'']) None None
        (Some globalContext)"
  let ?ni = "Val (SWBuiltInFunction niNambari) None None (Some globalContext)"
  let ?args = "[Some (Val (SWNumber 5) None None None)]"
  let ?V = "\<lambda>J. visit 2 J exampleHost"
  note inst = execution_scope_parent [where c = globalContext and s = initialStore
      and args = ?args and INT_visit = ?V and H = exampleHost]
  have a: "vcontext ?add = Some globalContext" by simp
  have b: "vcontext ?add = Some globalContext \<and>
      payload ?add = SWFunction ''add'' (VarAccessNode ''n'' None None) [''x''] \<and>
      length ?args = length [''x'']" by simp
  have c: "vcontext ?ni = Some globalContext \<and> payload ?ni = SWBuiltInFunction niNambari \<and>
      length ?args = length (builtinArgNames niNambari)"
    by (simp add: builtinArgNames_def)
  let ?nd = "VarAccessNode ''idadi'' (Some (Position ''a.swh'' 0 0 0))
       (Some (Position ''a.swh'' 0 5 5))"
  let ?v = "Val (SWBuiltInFunction idadi) (Some (Position ''a.swh'' 0 0 0))
       (Some (Position ''a.swh'' 0 5 5)) (Some globalContext)"
  have d: "(?nd = VarAccessNode ''idadi'' (Some (Position ''a.swh'' 0 0 0))
              (Some (Position ''a.swh'' 0 5 5)) \<or>
            ?nd = FuncDefNode None [] ?nd (Some (Position ''a.swh'' 0 0 0))
              (Some (Position ''a.swh'' 0 5 5)) \<or>
            ?nd = CallNode ?nd [] (Some (Position ''a.swh'' 0 0 0))
              (Some (Position ''a.swh'' 0 5 5))) \<and>
      visit (Suc 0) Interpreter_new exampleHost ?nd globalContext initialStore
      = Some (Return (RTResult (Some ?v) None), initialStore)"
    by (simp add: run_defs)
  have p1: "generateNewContext ?add initialStore =
     Some (Return (Context ''add'' (Some globalContext) None 1),
           initialStore\<lparr>tables := tables initialStore @
              [\<lparr>symbols = [], parentTable = Some 0\<rparr>]\<rparr>)"
    using inst [where func = ?add, THEN conjunct1] a
    by (simp add: functionName_def initialStore_def globalContext_def)
  have p2: "execute ?V exampleHost ?add ?args initialStore =
     Some (Return (RTResult None (Some (RTError None None
             ([CHR 0x27] @ ''n'' @ [CHR 0x27] @ '' is not defined'')
             (Some (Context ''add'' (Some globalContext) None 1))))),
           initialStore\<lparr>tables := tables initialStore @
              [\<lparr>symbols = [(''x'', Val (SWNumber 5) None None
                    (Some (Context ''add'' (Some globalContext) None 1)))],
                parentTable = Some 0\<rparr>]\<rparr>)"
    using inst [where func = ?add and name = "''add''"
        and bodyNode = "VarAccessNode ''n'' None None" and argNames = "[''x'']",
        THEN conjunct2, THEN conjunct1] b
    by (simp add: run_defs)
  have p3: "execute ?V exampleHost ?ni ?args initialStore =
     Some (Return (RTResult (Some (Val (SWBoolean True) None None None)) None),
           initialStore\<lparr>tables := tables initialStore @
              [\<lparr>symbols = [(''value'', Val (SWNumber 5) None None
                    (Some (Context ''niNambari'' (Some globalContext) None 1)))],
                parentTable = Some 0\<rparr>]\<rparr>)"
    using inst [where func = ?ni and b = niNambari,
        THEN conjunct2, THEN conjunct2, THEN conjunct1] c
    by (simp add: run_defs)
  have p4: "vcontext ?v = Some globalContext"
    using execution_scope_parent [where nd = ?nd and x = "''idadi''"
        and ps = "Some (Position ''a.swh'' 0 0 0)" and pe = "Some (Position ''a.swh'' 0 5 5)"
        and fn = None and an = "[]" and bd = ?nd and callee = ?nd and argNodes = "[]"
        and n = 0 and I = Interpreter_new and H = exampleHost and ctx = globalContext
        and s = initialStore and v = ?v and s' = initialStore,
        THEN conjunct2, THEN conjunct2, THEN conjunct2] d
    by simp
  from p1 p2 p3 p4 show ?thesis by simp
qed

text \<open>
  C1, as the claim states it, fails on the closure program: \<open>add\<close> is defined in the
  execution context of \<open>gen\<close> (table 1, which binds \<open>n\<close>), but the table of its own
  execution (table 2) has the global table 0 as parent, the table of the call site, and
  the free name \<open>n\<close> of its body is not defined there.
\<close>

theorem closure_counterexample:
  "visit 6 Interpreter_new exampleHost closureProgram globalContext initialStore =
   Some (Return (RTResult None (Some (RTError None None
           ([CHR 0x27] @ ''n'' @ [CHR 0x27] @ '' is not defined'')
           (Some (Context ''add'' (Some globalContext) None 2))))),
     \<lparr>tables =
        [globalSymbolTable\<lparr>symbols := symbols globalSymbolTable @
           [(''gen'', Val (SWFunction ''gen''
                (FuncDefNode (Some ''add'') [''x''] (VarAccessNode ''n'' None None) None None)
                [''n'']) None None (Some globalContext))]\<rparr>,
         \<lparr>symbols =
            [(''n'', Val (SWNumber 10) None None
                (Some (Context ''gen'' (Some globalContext) None 1))),
             (''add'', Val (SWFunction ''add'' (VarAccessNode ''n'' None None) [''x''])
                None None (Some (Context ''gen'' (Some globalContext) None 1)))],
          parentTable = Some 0\<rparr>,
         \<lparr>symbols =
            [(''x'', Val (SWNumber 5) None None
                (Some (Context ''add'' (Some globalContext) None 2)))],
          parentTable = Some 0\<rparr>],
      console = [], stdin = []\<rparr>)"
  by (simp add: closureProgram_def run_defs)

section \<open>The argument list __hoja\<close>

text \<open>
  C2, at the failing input \<open>(shughuli (a) { __hoja })(7)\<close>: the call passes the arity
  check, and the body finds \<open>__hoja\<close> unbound; a built-in's execution table holds its
  parameter only. The \<open>populateArgs\<close> that \<open>execute\<close> calls binds the parameters and
  nothing else, whereas the one in the types directory, on the same arguments, binds
  \<open>__hoja\<close> to the list of them.
\<close>

theorem hoja_not_bound_by_call:
  "visit 4 Interpreter_new exampleHost
     (CallNode (FuncDefNode None [''a''] (VarAccessNode ''__hoja'' None None) None None)
        [NumberNode 7 None None] None None)
     globalContext initialStore
   = Some (Return (RTResult None (Some (RTError None None
             ([CHR 0x27] @ ''__hoja'' @ [CHR 0x27] @ '' is not defined'')
             (Some (Context ''<isiyotambuliwa>'' (Some globalContext) None 1))))),
           initialStore\<lparr>tables := tables initialStore @
              [\<lparr>symbols = [(''a'', Val (SWNumber 7) None None
                    (Some (Context ''<isiyotambuliwa>'' (Some globalContext) None 1)))],
                parentTable = Some 0\<rparr>]\<rparr>) \<and>
   execute (\<lambda>J. visit 2 J exampleHost) exampleHost
     (Val (SWBuiltInFunction niNambari) None None (Some globalContext))
     [Some (Val (SWNumber 7) None None None)] initialStore
   = Some (Return (RTResult (Some (Val (SWBoolean True) None None None)) None),
           initialStore\<lparr>tables := tables initialStore @
              [\<lparr>symbols = [(''value'', Val (SWNumber 7) None None
                    (Some (Context ''niNambari'' (Some globalContext) None 1)))],
                parentTable = Some 0\<rparr>]\<rparr>) \<and>
   BaseFunction_populateArgs 1 (Some [''a'']) [Some (Val (SWNumber 7) None None None)]
     (Context ''<isiyotambuliwa>'' (Some globalContext) None 1) False
     (initialStore\<lparr>tables := tables initialStore @ [\<lparr>symbols = [], parentTable = Some 0\<rparr>]\<rparr>)
   = Some (Return (RTResult (Some SWNull_new) None),
           initialStore\<lparr>tables := tables initialStore @
              [\<lparr>symbols =
                  [(''a'', Val (SWNumber 7) None None
                      (Some (Context ''<isiyotambuliwa>'' (Some globalContext) None 1))),
                   (''__hoja'', Val (SWList [Some (Val (SWNumber 7) None None
                      (Some (Context ''<isiyotambuliwa>'' (Some globalContext) None 1)))])
                      None None None)],
                parentTable = Some 0\<rparr>]\<rparr>)"
  by (simp add: run_defs BaseFunction_populateArgs_def)

end
